theory Spec2Isabelle
  imports Main
begin

section \<open>The packaging descriptor of latex2anki\<close>

text \<open>
  The repository slice is one file, \<^verbatim>\<open>setup.py\<close>. It is modelled twice: as the text of
  its lines, and as the Python syntax tree of its two statements. The lemma
  \<open>source_lines_render\<close> ties the two together.
\<close>

subsection \<open>The text of setup.py\<close>

definition source_lines :: "string list" where
  "source_lines =
    [''#!/usr/bin/env python'',
     '''',
     ''from setuptools import setup'',
     '''',
     ''setup(name='latex2anki','',
     ''      version='0.0.1','',
     ''      description='convert LaTeX flash cards to Anki','',
     ''      author='Juan M. Bello-Rivas','',
     ''      author_email='jmbr@superadditive.com','',
     ''      url='https://github.com/jmbr/latex2anki','',
     ''      install_requires=['texsoup'],'',
     ''      scripts=['latex2anki'])'']"

subsection \<open>The syntax tree of setup.py\<close>

text \<open>
  The fragment of Python's abstract syntax that a module of this kind can use: string
  constants, list displays, names and calls with positional and keyword arguments;
  imports, expression statements, and function and class definitions.
\<close>

datatype expr =
    Constant string
  | PyList "expr list"
  | Name string
  | Call expr "expr list" "(string \<times> expr) list"

datatype stmt =
    Import "string list"
  | ImportFrom string "string list"
  | Expr expr
  | FunctionDef string "stmt list"
  | ClassDef string "stmt list"

text \<open>The keyword arguments of the call \<^verbatim>\<open>setup(...)\<close>, in the order of the source.\<close>

definition setup_keywords :: "(string \<times> expr) list" where
  "setup_keywords =
    [(''name'', Constant ''latex2anki''),
     (''version'', Constant ''0.0.1''),
     (''description'', Constant ''convert LaTeX flash cards to Anki''),
     (''author'', Constant ''Juan M. Bello-Rivas''),
     (''author_email'', Constant ''jmbr@superadditive.com''),
     (''url'', Constant ''https://github.com/jmbr/latex2anki''),
     (''install_requires'', PyList [Constant ''texsoup'']),
     (''scripts'', PyList [Constant ''latex2anki''])]"

definition setup_call :: expr where
  "setup_call = Call (Name ''setup'') [] setup_keywords"

definition module_body :: "stmt list" where
  "module_body = [ImportFrom ''setuptools'' [''setup''], Expr setup_call]"

text \<open>
  Python binds each keyword of a call once (a repeated keyword is a syntax error), so
  the value passed for a keyword is the association list's entry for it.
\<close>

definition setup_arg :: "string \<Rightarrow> expr option" where
  "setup_arg k = map_of setup_keywords k"

subsection \<open>Reading the syntax tree\<close>

text \<open>The string constants of an expression, left to right.\<close>

fun strings_of :: "expr \<Rightarrow> string list" where
  "strings_of (Constant s) = [s]"
| "strings_of (PyList es) = concat (map strings_of es)"
| "strings_of (Name n) = []"
| "strings_of (Call f args kws) =
     strings_of f @ concat (map strings_of args) @ concat (map (\<lambda>kv. strings_of (snd kv)) kws)"

text \<open>The identifiers an expression refers to.\<close>

fun names_of :: "expr \<Rightarrow> string list" where
  "names_of (Constant s) = []"
| "names_of (PyList es) = concat (map names_of es)"
| "names_of (Name n) = [n]"
| "names_of (Call f args kws) =
     names_of f @ concat (map names_of args) @ concat (map (\<lambda>kv. names_of (snd kv)) kws)"

text \<open>An expression is a literal when it is a string constant or a list display of literals.\<close>

fun is_literal :: "expr \<Rightarrow> bool" where
  "is_literal (Constant s) = True"
| "is_literal (PyList es) = list_all is_literal es"
| "is_literal (Name n) = False"
| "is_literal (Call f args kws) = False"

text \<open>The elements of a list display of string constants; nothing for any other expression.\<close>

fun string_list :: "expr \<Rightarrow> string list option" where
  "string_list (PyList []) = Some []"
| "string_list (PyList (Constant s # es)) = map_option (Cons s) (string_list (PyList es))"
| "string_list e = None"

text \<open>
  The strings a keyword lists in the descriptor: the elements of its list display, and
  none when the keyword is not passed or its value is not a list of string constants.
  This is what the descriptor says, not what an installer makes of a keyword that is
  missing.
\<close>

definition declared_list :: "string \<Rightarrow> string list" where
  "declared_list k =
     (case setup_arg k of
        None \<Rightarrow> []
      | Some e \<Rightarrow> (case string_list e of None \<Rightarrow> [] | Some xs \<Rightarrow> xs))"

subsection \<open>What the keywords declare\<close>

text \<open>
  The keywords of \<^verbatim>\<open>setup\<close> that declare a dependency on another distribution.
\<close>

definition dependency_keywords :: "string list" where
  "dependency_keywords =
     [''install_requires'', ''setup_requires'', ''tests_require'', ''extras_require'']"


definition passed_keywords :: "string list" where
  "passed_keywords = map fst setup_keywords"

text \<open>
  The distributions of the Python package index that parse LaTeX, by their names in
  lower case (the index compares names without regard to case). TexSoup, the library
  that \<^verbatim>\<open>install_requires\<close> names, is a parser for LaTeX documents; that is a fact about
  the library, recorded here, and not something \<^verbatim>\<open>setup.py\<close> states.
\<close>

definition latex_parsing_libraries :: "string list" where
  "latex_parsing_libraries = [''texsoup'', ''pylatexenc'', ''plastex'']"




text \<open>
  The kinds of packaging metadata: the package name, the version, author information,
  a dependency declaration, a script entry point, and descriptive fields.
\<close>

datatype field_kind = PackageName | Version | AuthorInfo | Dependency | ScriptEntry | Descriptive

definition kind_of :: "string \<Rightarrow> field_kind option" where
  "kind_of k =
     (if k = ''name'' then Some PackageName
      else if k = ''version'' then Some Version
      else if k = ''author'' \<or> k = ''author_email'' then Some AuthorInfo
      else if k = ''install_requires'' then Some Dependency
      else if k = ''scripts'' then Some ScriptEntry
      else if k = ''description'' \<or> k = ''url'' then Some Descriptive
      else None)"

definition count_kind :: "field_kind \<Rightarrow> nat" where
  "count_kind fk = length (filter (\<lambda>k. kind_of k = Some fk) passed_keywords)"

subsection \<open>Reading the text\<close>

text \<open>\<open>starts_with p s\<close> is Python's \<^verbatim>\<open>s.startswith(p)\<close>.\<close>

fun starts_with :: "string \<Rightarrow> string \<Rightarrow> bool" where
  "starts_with [] s = True"
| "starts_with (p # ps) [] = False"
| "starts_with (p # ps) (c # cs) = (p = c \<and> starts_with ps cs)"

text \<open>The number of positions of \<open>s\<close> at which \<open>p\<close> begins.\<close>

fun occurrences :: "string \<Rightarrow> string \<Rightarrow> nat" where
  "occurrences p [] = (if p = [] then 1 else 0)"
| "occurrences p (c # cs) = (if starts_with p (c # cs) then 1 else 0) + occurrences p cs"

definition mentions :: "string \<Rightarrow> string \<Rightarrow> bool" where
  "mentions p s = (0 < occurrences p s)"

definition lstrip :: "string \<Rightarrow> string" where
  "lstrip s = dropWhile (\<lambda>c. c = CHR '' '') s"

text \<open>The words of a string: its maximal runs of characters other than the space.\<close>

fun words_from :: "string \<Rightarrow> string \<Rightarrow> string list" where
  "words_from acc [] = (if acc = [] then [] else [rev acc])"
| "words_from acc (c # cs) =
     (if c = CHR '' '' then (if acc = [] then [] else [rev acc]) @ words_from [] cs
      else words_from (c # acc) cs)"

definition words_of :: "string \<Rightarrow> string list" where
  "words_of s = words_from [] s"

definition is_upper :: "char \<Rightarrow> bool" where
  "is_upper c = (65 \<le> (of_char c :: nat) \<and> (of_char c :: nat) \<le> 90)"

definition is_digit :: "char \<Rightarrow> bool" where
  "is_digit c = (48 \<le> (of_char c :: nat) \<and> (of_char c :: nat) \<le> 57)"

definition lower :: "string \<Rightarrow> string" where
  "lower s = map (\<lambda>c. if is_upper c then char_of ((of_char c :: nat) + 32) else c) s"

subsection \<open>Printing the syntax tree\<close>

definition quoted :: "string \<Rightarrow> string" where
  "quoted s = [CHR 0x27] @ s @ [CHR 0x27]"

fun join :: "string \<Rightarrow> string list \<Rightarrow> string" where
  "join sep [] = []"
| "join sep [x] = x"
| "join sep (x # y # ys) = x @ sep @ join sep (y # ys)"

fun render_expr :: "expr \<Rightarrow> string" where
  "render_expr (Constant s) = quoted s"
| "render_expr (PyList es) = ''['' @ join '', '' (map render_expr es) @ '']''"
| "render_expr (Name n) = n"
| "render_expr (Call f args kws) =
     render_expr f @ ''('' @
     join '', '' (map render_expr args @ map (\<lambda>kv. fst kv @ ''='' @ render_expr (snd kv)) kws)
     @ '')''"

definition render_keyword :: "string \<times> expr \<Rightarrow> string" where
  "render_keyword kv = fst kv @ ''='' @ render_expr (snd kv)"

text \<open>
  The layout of the source: one keyword argument to a line, a comma after each but the
  last, which closes the call; the continuation lines are aligned under the first
  argument.
\<close>

fun close_lines :: "string list \<Rightarrow> string list" where
  "close_lines [] = []"
| "close_lines [l] = [l @ '')'']"
| "close_lines (l # m # ls) = (l @ '','') # close_lines (m # ls)"

definition layout_call :: "string \<Rightarrow> (string \<times> expr) list \<Rightarrow> string list" where
  "layout_call f kws =
     (case close_lines (map render_keyword kws) of
        [] \<Rightarrow> [f @ ''()'']
      | l # ls \<Rightarrow> (f @ ''('' @ l) # map (\<lambda>m. replicate (length f + 1) (CHR '' '') @ m) ls)"

fun render_stmt :: "stmt \<Rightarrow> string list" where
  "render_stmt (Import ms) = [''import '' @ join '', '' ms]"
| "render_stmt (ImportFrom m ns) = [''from '' @ m @ '' import '' @ join '', '' ns]"
| "render_stmt (Expr (Call (Name f) [] kws)) = layout_call f kws"
| "render_stmt (Expr e) = [render_expr e]"
| "render_stmt (FunctionDef n body) =
     (''def '' @ n @ ''():'') # map (\<lambda>l. ''    '' @ l) (concat (map render_stmt body))"
| "render_stmt (ClassDef n body) =
     (''class '' @ n @ '':'') # map (\<lambda>l. ''    '' @ l) (concat (map render_stmt body))"

text \<open>A module: the interpreter line, then the statements, each after a blank line.\<close>

definition render_module :: "string \<Rightarrow> stmt list \<Rightarrow> string list" where
  "render_module shebang body = shebang # concat (map (\<lambda>s. '''' # render_stmt s) body)"

subsection \<open>Statements\<close>

text \<open>The callees of the calls in an expression, outermost first.\<close>

fun calls_of :: "expr \<Rightarrow> expr list" where
  "calls_of (Constant s) = []"
| "calls_of (PyList es) = concat (map calls_of es)"
| "calls_of (Name n) = []"
| "calls_of (Call f args kws) =
     f # calls_of f @ concat (map calls_of args) @ concat (map (\<lambda>kv. calls_of (snd kv)) kws)"

fun stmt_calls :: "stmt \<Rightarrow> expr list" where
  "stmt_calls (Import ms) = []"
| "stmt_calls (ImportFrom m ns) = []"
| "stmt_calls (Expr e) = calls_of e"
| "stmt_calls (FunctionDef n body) = concat (map stmt_calls body)"
| "stmt_calls (ClassDef n body) = concat (map stmt_calls body)"

text \<open>The names of the functions and classes a statement defines.\<close>

fun definitions_in :: "stmt \<Rightarrow> string list" where
  "definitions_in (Import ms) = []"
| "definitions_in (ImportFrom m ns) = []"
| "definitions_in (Expr e) = []"
| "definitions_in (FunctionDef n body) = n # concat (map definitions_in body)"
| "definitions_in (ClassDef n body) = n # concat (map definitions_in body)"

text \<open>The modules a statement imports from.\<close>

fun imported_modules :: "stmt \<Rightarrow> string list" where
  "imported_modules (Import ms) = ms"
| "imported_modules (ImportFrom m ns) = [m]"
| "imported_modules (Expr e) = []"
| "imported_modules (FunctionDef n body) = concat (map imported_modules body)"
| "imported_modules (ClassDef n body) = concat (map imported_modules body)"

text \<open>
  A statement of packaging metadata: the import of the packaging library, or a call of
  its \<^verbatim>\<open>setup\<close> with keyword arguments that are all literals.
\<close>

fun is_metadata_stmt :: "stmt \<Rightarrow> bool" where
  "is_metadata_stmt (ImportFrom m ns) = (m = ''setuptools'' \<and> ns = [''setup''])"
| "is_metadata_stmt (Expr (Call (Name f) [] kws)) =
     (f = ''setup'' \<and> list_all (\<lambda>kv. is_literal (snd kv)) kws)"
| "is_metadata_stmt s = False"

definition is_definition_line :: "string \<Rightarrow> bool" where
  "is_definition_line l =
     (starts_with ''def '' (lstrip l) \<or> starts_with ''class '' (lstrip l))"

text \<open>The words by which Python code reads input or writes output.\<close>

definition io_words :: "string list" where
  "io_words = [''open'', ''input'', ''print'', ''read'', ''write'', ''stdin'', ''stdout'', ''argv'']"

definition does_io :: "string \<Rightarrow> bool" where
  "does_io l = list_ex (\<lambda>w. mentions w l) io_words"

subsection \<open>Interface elements\<close>

text \<open>A command-line flag: a word that begins with a hyphen.\<close>

definition mentions_flag :: "string \<Rightarrow> bool" where
  "mentions_flag s = list_ex (starts_with ''-'') (words_of s)"

text \<open>
  An environment variable: a word that begins with a dollar sign or is an upper-case
  identifier of two or more characters, or a use of the environment by name.
\<close>

fun is_env_name :: "string \<Rightarrow> bool" where
  "is_env_name [] = False"
| "is_env_name (c # cs) =
     (is_upper c \<and> cs \<noteq> [] \<and> list_all (\<lambda>d. is_upper d \<or> is_digit d \<or> d = CHR ''_'') cs)"

definition mentions_env_var :: "string \<Rightarrow> bool" where
  "mentions_env_var s =
     (list_ex (\<lambda>w. starts_with ''$'' w \<or> is_env_name w) (words_of s)
      \<or> mentions ''environ'' (lower s) \<or> mentions ''getenv'' (lower s))"

text \<open>An exit code: a word that is a decimal number, or the word exit.\<close>

definition mentions_exit_code :: "string \<Rightarrow> bool" where
  "mentions_exit_code s =
     (list_ex (\<lambda>w. w \<noteq> [] \<and> list_all is_digit w) (words_of s) \<or> mentions ''exit'' (lower s))"

text \<open>
  A detail of a file format: a file name extension of the input or of the output, or
  the vocabulary of record layouts.
\<close>

definition format_markers :: "string list" where
  "format_markers =
     [''.tex'', ''.apkg'', ''.csv'', ''.tsv'', ''.txt'', ''format'', ''separator'',
      ''delimiter'', ''field'']"

definition mentions_file_format :: "string \<Rightarrow> bool" where
  "mentions_file_format s = list_ex (\<lambda>m. mentions m (lower s)) format_markers"

definition mentions_interface :: "string \<Rightarrow> bool" where
  "mentions_interface s =
     (mentions_flag s \<or> mentions_env_var s \<or> mentions_exit_code s \<or> mentions_file_format s)"

subsection \<open>The text is the printed syntax tree\<close>

lemma source_lines_render: "source_lines = render_module ''#!/usr/bin/env python'' module_body"
  by (simp add: source_lines_def render_module_def module_body_def setup_call_def
      setup_keywords_def layout_call_def render_keyword_def quoted_def)

lemma setup_keywords_distinct: "distinct (map fst setup_keywords)"
  by (simp add: setup_keywords_def)

subsection \<open>The scripts argument\<close>

text \<open>
  Claim C1. The descriptor declares exactly one installed executable script, named
  latex2anki: the scripts list passed to setup is the one-element list
  \<^verbatim>\<open>['latex2anki']\<close>, and so the scripts it declares are that one name.
\<close>

theorem scripts_is_latex2anki:
  "setup_arg ''scripts'' = Some (PyList [Constant ''latex2anki''])
   \<and> declared_list ''scripts'' = [''latex2anki'']
   \<and> length (declared_list ''scripts'') = 1"
  by (simp add: declared_list_def setup_arg_def setup_keywords_def)

subsection \<open>The dependency\<close>

text \<open>
  Claim C2. The descriptor declares exactly one runtime dependency, and it is a
  LaTeX-parsing library: the install_requires list passed to setup has length one, its
  element is one of the libraries that parse LaTeX, install_requires is the only
  dependency keyword that is passed, and so that element is the only dependency the
  descriptor declares.
\<close>

theorem one_runtime_dependency:
  "(\<exists>d. setup_arg ''install_requires'' = Some (PyList [Constant d])
        \<and> lower d \<in> set latex_parsing_libraries)
   \<and> length (declared_list ''install_requires'') = 1
   \<and> filter (\<lambda>d. lower d \<in> set latex_parsing_libraries) (declared_list ''install_requires'')
       = declared_list ''install_requires''
   \<and> filter (\<lambda>k. k \<in> set dependency_keywords) passed_keywords = [''install_requires'']
   \<and> concat (map declared_list dependency_keywords) = declared_list ''install_requires''"
proof -
  have parser: "lower ''texsoup'' \<in> set latex_parsing_libraries"
    by code_simp
  have sole: "setup_arg ''install_requires'' = Some (PyList [Constant ''texsoup''])"
    by (simp add: setup_arg_def setup_keywords_def)
  have listed: "declared_list ''install_requires'' = [''texsoup'']"
    by (simp add: declared_list_def sole)
  have only_keyword:
    "filter (\<lambda>k. k \<in> set dependency_keywords) passed_keywords = [''install_requires'']"
    by (simp add: setup_keywords_def dependency_keywords_def passed_keywords_def)
  have all_declared:
    "concat (map declared_list dependency_keywords) = declared_list ''install_requires''"
    by (simp add: declared_list_def setup_arg_def setup_keywords_def dependency_keywords_def)
  from parser sole have "\<exists>d. setup_arg ''install_requires'' = Some (PyList [Constant d])
      \<and> lower d \<in> set latex_parsing_libraries"
    by blast
  moreover from parser listed have
    "filter (\<lambda>d. lower d \<in> set latex_parsing_libraries) (declared_list ''install_requires'')
       = declared_list ''install_requires''"
    by simp
  moreover from listed have "length (declared_list ''install_requires'') = 1"
    by simp
  ultimately show ?thesis
    using only_keyword all_declared by blast
qed

text \<open>
  Claim C7. The dependency is texsoup: the sole element of the install_requires list is
  the string \<^verbatim>\<open>'texsoup'\<close>.
\<close>

theorem dependency_is_texsoup:
  "setup_arg ''install_requires'' = Some (PyList [Constant ''texsoup''])
   \<and> declared_list ''install_requires'' = [''texsoup'']"
  by (simp add: declared_list_def setup_arg_def setup_keywords_def)

subsection \<open>Name and script\<close>

text \<open>
  Claim C8. The declared package name is the name of the single installed script: the
  name argument of setup and the sole element of the scripts list are the same string,
  \<^verbatim>\<open>'latex2anki'\<close>.
\<close>

theorem name_equals_script:
  "\<exists>n. setup_arg ''name'' = Some (Constant n)
     \<and> setup_arg ''scripts'' = Some (PyList [Constant n])
     \<and> n = ''latex2anki''"
  by (simp add: setup_arg_def setup_keywords_def)

subsection \<open>What the distribution provides\<close>



subsection \<open>The kinds of metadata\<close>

text \<open>
  Claim C4. Every keyword argument passed to setup is one of the kinds of metadata the
  specification enumerates, and every kind occurs: one package name, one version, author
  information (author and author_email), one dependency declaration, one script entry
  point, and the descriptive fields description and url.
\<close>

theorem keywords_are_enumerated_metadata:
  "map kind_of passed_keywords =
     [Some PackageName, Some Version, Some Descriptive, Some AuthorInfo, Some AuthorInfo,
      Some Descriptive, Some Dependency, Some ScriptEntry]
   \<and> filter (\<lambda>k. kind_of k = None) passed_keywords = []
   \<and> count_kind PackageName = 1 \<and> count_kind Version = 1 \<and> count_kind AuthorInfo = 2
   \<and> count_kind Dependency = 1 \<and> count_kind ScriptEntry = 1 \<and> count_kind Descriptive = 2"
  by (simp add: count_kind_def passed_keywords_def setup_keywords_def kind_of_def)

subsection \<open>The whole file\<close>

text \<open>
  Claim C3. The source is a file of 12 lines that holds packaging metadata only: its
  statements are the import of setup and one call of setup whose arguments are literals,
  the text \<^verbatim>\<open>setup(\<close> occurs once, no function or class is defined, and no line reads
  input or writes output.
\<close>

theorem source_is_packaging_metadata:
  "length source_lines = 12
   \<and> sum_list (map (occurrences ''setup('') source_lines) = 1
   \<and> concat (map stmt_calls module_body) = [Name ''setup'']
   \<and> list_all is_metadata_stmt module_body
   \<and> concat (map imported_modules module_body) = [''setuptools'']
   \<and> concat (map definitions_in module_body) = []
   \<and> filter is_definition_line source_lines = []
   \<and> filter does_io source_lines = []"
proof -
  have text_shape: "length source_lines = 12
      \<and> sum_list (map (occurrences ''setup('') source_lines) = 1"
    by (simp add: source_lines_def)
  have tree_shape: "concat (map stmt_calls module_body) = [Name ''setup'']
      \<and> list_all is_metadata_stmt module_body
      \<and> concat (map imported_modules module_body) = [''setuptools'']
      \<and> concat (map definitions_in module_body) = []"
    by (simp add: module_body_def setup_call_def setup_keywords_def)
  have no_defs: "filter is_definition_line source_lines = []"
    by (simp add: source_lines_def is_definition_line_def lstrip_def)
  have no_io: "filter does_io source_lines = []"
    by (simp add: source_lines_def does_io_def io_words_def mentions_def)
  from text_shape tree_shape no_defs no_io show ?thesis
    by blast
qed

subsection \<open>No interface elements\<close>

text \<open>
  Claim C5. No command-line flag, environment variable, exit code or file-format detail
  appears in the source: every keyword argument of the setup call is a literal, none of
  the strings passed mentions such an element, and neither does any line of the file.
\<close>

theorem no_interface_elements:
  "list_all (\<lambda>kv. is_literal (snd kv)) setup_keywords
   \<and> filter (\<lambda>kv. list_ex mentions_interface (strings_of (snd kv))) setup_keywords = []
   \<and> filter mentions_interface source_lines = []"
proof -
  have literals: "list_all (\<lambda>kv. is_literal (snd kv)) setup_keywords"
    by (simp add: setup_keywords_def)
  have in_arguments: "filter (\<lambda>kv. list_ex mentions_interface (strings_of (snd kv))) setup_keywords = []"
    by code_simp
  have in_text: "filter mentions_interface source_lines = []"
    by code_simp
  from literals in_arguments in_text show ?thesis
    by blast
qed

end
